theory Spec2Isabelle
  imports Complex_Main
begin

section \<open>The labscript device \<open>red_pitaya_pyrpl_asg\<close> (red\_pitaya\_pyrpl\_asg.py)\<close>

text \<open>
  Python floats are modelled as real numbers: every time, duration and voltage is a
  \<^typ>\<open>real\<close>, and arithmetic is exact. Where the source leaves the reals (a division
  by zero, an infinite burst period) the model says so explicitly.
\<close>

datatype error =
    LabscriptError
  | ZeroDivisionError
  | ValueError
  | IndexError
  | TypeError
  | NotFinite
  | Exception string

text \<open>
  A command is the dict appended by one of the four methods; the constructor is the
  dict's \<open>'name'\<close>, the arguments are its remaining entries in the order of the source:
  \<^item> \<open>power_ramp\<close>: \<open>t\<close>, \<open>duration\<close>, \<open>time_const\<close>, \<open>init_volt\<close>, \<open>final_volt\<close>,
    \<open>ratio_trap_temp\<close>;
  \<^item> \<open>linear_ramp\<close>: \<open>t\<close>, \<open>duration\<close>, \<open>init_volt\<close>, \<open>final_volt\<close>;
  \<^item> \<open>constant\<close>: \<open>t\<close>, \<open>duration\<close>, \<open>volt\<close>;
  \<^item> \<open>sine\<close>: \<open>t\<close>, \<open>duration\<close>, \<open>frequency\<close>, \<open>amplitude\<close>, \<open>offset\<close>.
\<close>

datatype command =
    PowerRamp real real real real real real
  | LinearRamp real real real real
  | Constant real real real
  | Sine real real real real real

fun cmd_t :: "command \<Rightarrow> real" where
  "cmd_t (PowerRamp t duration time_const init_volt final_volt ratio_trap_temp) = t"
| "cmd_t (LinearRamp t duration init_volt final_volt) = t"
| "cmd_t (Constant t duration volt) = t"
| "cmd_t (Sine t duration freq amplitude offset) = t"

fun cmd_duration :: "command \<Rightarrow> real" where
  "cmd_duration (PowerRamp t duration time_const init_volt final_volt ratio_trap_temp) = duration"
| "cmd_duration (LinearRamp t duration init_volt final_volt) = duration"
| "cmd_duration (Constant t duration volt) = duration"
| "cmd_duration (Sine t duration freq amplitude offset) = duration"

text \<open>
  The device object: \<open>self.commands\<close>, \<open>self.trig_duration\<close>, and a log of the calls
  \<open>self.trigger_device.trigger(t, self.trig_duration)\<close> made on the parent device.
\<close>

record device =
  trig_duration :: real
  commands :: "command list"
  parent_triggers :: "(real \<times> real) list"

text \<open>\<open>__init__\<close> stores \<open>trig_duration\<close> and starts with no commands.\<close>

definition init_device :: "real \<Rightarrow> device" where
  "init_device trig = \<lparr>trig_duration = trig, commands = [], parent_triggers = []\<rparr>"

definition trigger :: "device \<Rightarrow> real \<Rightarrow> device" where
  "trigger self t = self\<lparr>parent_triggers := parent_triggers self @ [(t, trig_duration self)]\<rparr>"

text \<open>
  A method returns the exception it raised, if any, together with the device as the
  call left it. (\<open>constant\<close> is a keyword of Isabelle, so the method \<open>constant\<close> is
  named \<open>constant_cmd\<close>.)
\<close>

definition power_ramp ::
  "device \<Rightarrow> real \<Rightarrow> real \<Rightarrow> real \<Rightarrow> real \<Rightarrow> real \<Rightarrow> real \<Rightarrow> error option \<times> device" where
  "power_ramp self t duration time_const init_volt final_volt ratio_trap_temp =
     (let self1 = (if commands self = [] then trigger self t else self)
      in if time_const < duration then (Some LabscriptError, self1)
         else if final_volt \<ge> init_volt then (Some LabscriptError, self1)
         else (None, self1\<lparr>commands := commands self1 @
                 [PowerRamp t duration time_const init_volt final_volt ratio_trap_temp]\<rparr>))"

definition linear_ramp ::
  "device \<Rightarrow> real \<Rightarrow> real \<Rightarrow> real \<Rightarrow> real \<Rightarrow> error option \<times> device" where
  "linear_ramp self t duration init_volt final_volt =
     (let self1 = (if commands self = [] then trigger self t else self)
      in (None, self1\<lparr>commands := commands self1 @
                 [LinearRamp t duration init_volt final_volt]\<rparr>))"

definition constant_cmd :: "device \<Rightarrow> real \<Rightarrow> real \<Rightarrow> real \<Rightarrow> error option \<times> device" where
  "constant_cmd self t duration volt =
     (let self1 = (if commands self = [] then trigger self t else self)
      in (None, self1\<lparr>commands := commands self1 @ [Constant t duration volt]\<rparr>))"

definition sine ::
  "device \<Rightarrow> real \<Rightarrow> real \<Rightarrow> real \<Rightarrow> real \<Rightarrow> real \<Rightarrow> error option \<times> device" where
  "sine self t duration freq amplitude offset =
     (let self1 = (if commands self = [] then trigger self t else self)
      in (None, self1\<lparr>commands := commands self1 @
                 [Sine t duration freq amplitude offset]\<rparr>))"


subsection \<open>The numpy and Python operations used by \<open>generate_code\<close>\<close>

text \<open>\<open>np.diff(a)\<close>: \<open>out[i] = a[i+1] - a[i]\<close>, one entry fewer than \<open>a\<close>.\<close>

definition np_diff :: "real list \<Rightarrow> real list" where
  "np_diff a = map (\<lambda>i. a ! (i + 1) - a ! i) [0..<length a - 1]"

text \<open>
  \<open>np.linspace(start, stop, num)\<close> with the default \<open>endpoint=True\<close>: \<open>num\<close> evenly
  spaced samples \<open>start + k * step\<close> with \<open>step = (stop - start) / (num - 1)\<close>, the last
  one set to \<open>stop\<close>; a single sample is \<open>start\<close>, and \<open>num = 0\<close> gives the empty array.
  A negative \<open>num\<close> raises \<open>ValueError\<close>, which the caller checks before it calls.
\<close>

definition np_linspace :: "real \<Rightarrow> real \<Rightarrow> nat \<Rightarrow> real list" where
  "np_linspace start stop num =
     (if num = 1 then [start]
      else map (\<lambda>k. if k = num - 1 then stop
                     else start + real k * ((stop - start) / real (num - 1))) [0..<num])"

text \<open>
  \<open>a.argmin()\<close>: the index of the first occurrence of the minimum; \<open>ValueError\<close> on an
  empty array.
\<close>

fun argmin_scan :: "real list \<Rightarrow> nat \<Rightarrow> nat \<Rightarrow> real \<Rightarrow> nat" where
  "argmin_scan [] i best v = best"
| "argmin_scan (x # xs) i best v =
     (if x < v then argmin_scan xs (Suc i) i x else argmin_scan xs (Suc i) best v)"

definition np_argmin :: "real list \<Rightarrow> error + nat" where
  "np_argmin a = (case a of [] \<Rightarrow> Inl ValueError | x # xs \<Rightarrow> Inr (argmin_scan xs 1 0 x))"

text \<open>\<open>xs.index(x)\<close>: the position of the first occurrence; \<open>ValueError\<close> if there is none.\<close>

fun list_index :: "real list \<Rightarrow> real \<Rightarrow> error + nat" where
  "list_index [] x = Inl ValueError"
| "list_index (y # ys) x =
     (if y = x then Inr 0
      else case list_index ys x of Inl e \<Rightarrow> Inl e | Inr i \<Rightarrow> Inr (Suc i))"

text \<open>
  \<open>arr[i:j] = vals\<close> on a numpy array, for \<open>i \<le> j \<le> len(arr)\<close> and \<open>len(vals) = j - i\<close>,
  which is how \<open>generate_code\<close> calls it: both indices come from \<open>argmin\<close> over an array
  as long as \<open>arr\<close>, and \<open>vals\<close> is computed from \<open>j - i\<close> steps.
\<close>

definition slice_assign :: "real list \<Rightarrow> nat \<Rightarrow> nat \<Rightarrow> real list \<Rightarrow> real list" where
  "slice_assign arr i j vals = take i arr @ vals @ drop j arr"

text \<open>
  A numpy \<open>float64\<close> that may be \<open>+inf\<close>. \<open>np.floor\<close> returns a \<open>float64\<close>, so
  \<open>1/rounded_freq\<close> does not raise when \<open>rounded_freq\<close> is zero: it is \<open>inf\<close> (with a
  warning), and \<open>1/inf\<close> is \<open>0.0\<close>.
\<close>

datatype npfloat = Fin real | PosInf

fun np_reciprocal :: "npfloat \<Rightarrow> npfloat" where
  "np_reciprocal (Fin x) = (if x = 0 then PosInf else Fin (1 / x))"
| "np_reciprocal PosInf = Fin 0"


text \<open>
  \<open>x ** y\<close> on floats where the result is a real number: a zero base with a negative
  exponent, and a negative base with a fractional exponent, have none.
\<close>

definition float_pow :: "real \<Rightarrow> real \<Rightarrow> real option" where
  "float_pow x y =
     (if 0 < x then Some (x powr y)
      else if x = 0 then (if y = 0 then Some 1 else if 0 < y then Some 0 else None)
      else if real_of_int \<lfloor>y\<rfloor> = y then Some (x powi \<lfloor>y\<rfloor>) else None)"

subsection \<open>Duration resolution\<close>

text \<open>
  The loop \<open>for i in zero_dur: durations[i] = time_diffs[i]\<close>. An index outside
  \<open>time_diffs\<close> raises \<open>IndexError\<close>.
\<close>

fun replace_zero_durations :: "real list \<Rightarrow> nat list \<Rightarrow> real list \<Rightarrow> error + real list" where
  "replace_zero_durations time_diffs [] durations = Inr durations"
| "replace_zero_durations time_diffs (i # zero_dur) durations =
     (if i < length time_diffs
      then replace_zero_durations time_diffs zero_dur (durations[i := time_diffs ! i])
      else Inl IndexError)"

text \<open>
  Lines 161 to 179 of \<open>generate_code\<close>: the list \<open>durations\<close> after the zero durations
  have been replaced, or the \<open>LabscriptError\<close> raised when the last duration is zero.
  (\<open>durations[-1]\<close> of an empty list would be an \<open>IndexError\<close>; \<open>generate_code\<close> returns
  before it gets here when there are no commands.)
\<close>

definition resolve_durations :: "command list \<Rightarrow> error + real list" where
  "resolve_durations cmds =
     (let times = map cmd_t cmds;
          time_diffs = np_diff times;
          durations = map cmd_duration cmds
      in if durations = [] then Inl IndexError
         else if last durations = 0 then Inl LabscriptError
         else let zero_dur = filter (\<lambda>i. durations ! i = 0) [0..<length durations]
              in replace_zero_durations time_diffs zero_dur durations)"

subsection \<open>Burst frequency\<close>

definition freq_increment :: real where
  "freq_increment = 116415 / 1000000"

text \<open>
  Lines 181 to 183: \<open>total_duration = max(times) + durations[times.index(max(times))] - min(times)\<close>.
\<close>

definition requested_duration :: "command list \<Rightarrow> real list \<Rightarrow> error + real" where
  "requested_duration cmds durations =
     (let times = map cmd_t cmds;
          t_init = Min (set times)
      in case list_index times (Max (set times)) of
           Inl e \<Rightarrow> Inl e
         | Inr i \<Rightarrow>
             if i < length durations
             then Inr (Max (set times) + durations ! i - t_init)
             else Inl IndexError)"

text \<open>
  Line 186, \<open>frequency = 1/total_duration\<close>. A zero \<open>total_duration\<close> raises
  \<open>ZeroDivisionError\<close> when it is a Python float. It is a numpy \<open>float64\<close> when the
  duration that entered it was taken from \<open>time_diffs\<close> (the command at the greatest start
  time was given duration 0); the division then yields \<open>inf\<close>.
\<close>

definition burst_frequency :: "command list \<Rightarrow> real \<Rightarrow> error + npfloat" where
  "burst_frequency cmds total_duration =
     (if total_duration = 0
      then (case list_index (map cmd_t cmds) (Max (set (map cmd_t cmds))) of
              Inl e \<Rightarrow> Inl e
            | Inr i \<Rightarrow> if cmd_duration (cmds ! i) = 0 then Inr PosInf
                       else Inl ZeroDivisionError)
      else Inr (Fin (1 / total_duration)))"

text \<open>Line 193: \<open>rounded_freq = np.floor(frequency/freq_increment) * freq_increment\<close>.\<close>

fun round_down_frequency :: "npfloat \<Rightarrow> npfloat" where
  "round_down_frequency (Fin frequency) =
     Fin (real_of_int \<lfloor>frequency / freq_increment\<rfloor> * freq_increment)"
| "round_down_frequency PosInf = PosInf"

subsection \<open>Synthesis of the sample buffer\<close>

text \<open>
  \<open>(np.abs(ts - x)).argmin()\<close> for \<open>ts = np.linspace(0.0, total_duration, 2**14)\<close>. When
  \<open>total_duration\<close> is \<open>inf\<close> the array \<open>ts\<close> is \<open>[nan, inf, ..., inf]\<close> (its first entry
  is \<open>0 * inf\<close>), and \<open>argmin\<close> returns the position of the first \<open>nan\<close>, which is 0.
\<close>

definition ts_index :: "npfloat \<Rightarrow> real \<Rightarrow> error + nat" where
  "ts_index total_duration x =
     (case total_duration of
        Fin T \<Rightarrow> np_argmin (map (\<lambda>v. \<bar>v - x\<bar>) (np_linspace 0 T (2 ^ 14)))
      | PosInf \<Rightarrow> Inr 0)"

text \<open>
  Lines 205 and 207: the sample range \<open>[t_init_idx, t_end_idx)\<close> of a command with
  resolved duration \<open>durations[i]\<close>.
\<close>

definition t_init_idx :: "npfloat \<Rightarrow> real \<Rightarrow> command \<Rightarrow> error + nat" where
  "t_init_idx total_duration t_init command = ts_index total_duration (cmd_t command - t_init)"

definition t_end_idx :: "npfloat \<Rightarrow> real \<Rightarrow> command \<Rightarrow> real \<Rightarrow> error + nat" where
  "t_end_idx total_duration t_init command duration_i =
     ts_index total_duration (duration_i + cmd_t command - t_init)"

text \<open>
  The values one command writes, from the command, its resolved duration
  \<open>durations[i]\<close> and the array \<open>steps\<close>.

  For a power ramp the scalars are computed with Python float arithmetic, which raises
  \<open>ZeroDivisionError\<close> on a division by zero or on \<open>0.0 ** y\<close> with \<open>y < 0\<close>, and
  \<open>ValueError\<close> on a negative base with a fractional exponent. When \<open>durations[i]\<close> came
  from \<open>time_diffs\<close> (the command's own duration is 0) it is a numpy \<open>float64\<close>, and
  the same operations yield \<open>inf\<close> or \<open>nan\<close> instead; so do the operations on the array
  \<open>steps\<close>. The model stops with \<open>NotFinite\<close> there: it does not follow IEEE special
  values into the buffer.

  The sine reads \<open>command['duration']\<close>, the duration as given, not \<open>durations[i]\<close>.
\<close>

fun command_output :: "command \<Rightarrow> real \<Rightarrow> real list \<Rightarrow> error + real list" where
  "command_output (LinearRamp t duration init_volt final_volt) duration_i steps =
     Inr (map (\<lambda>s. (final_volt - init_volt) * s + init_volt) steps)"
| "command_output (PowerRamp t duration time_const init_volt final_volt ratio) duration_i steps =
     (if ratio - 4 = 0 then Inl ZeroDivisionError
      else
        let ratio_trap_temp = ratio + (ratio - 5) / (ratio - 4)
        in if ratio_trap_temp - 6 = 0 then Inl ZeroDivisionError
        else
          let ramp_exp = 2 * (ratio_trap_temp - 3) / (ratio_trap_temp - 6);
              raised = (\<lambda>e. if duration = 0 then NotFinite else e)
          in if time_const = 0 then Inl (raised ZeroDivisionError)
          else
            (case float_pow (1 - duration_i / time_const) ramp_exp of
               None \<Rightarrow>
                 Inl (raised (if 1 - duration_i / time_const = 0 then ZeroDivisionError
                              else ValueError))
             | Some coeff \<Rightarrow>
                 if coeff - 1 = 0 then Inl (raised ZeroDivisionError)
                 else
                   let coeff2 = (init_volt * coeff - final_volt) / (coeff - 1)
                   in (case those (map (\<lambda>s. float_pow (1 - s * duration_i / time_const)
                                              ramp_exp) steps) of
                         None \<Rightarrow> Inl NotFinite
                       | Some powers \<Rightarrow>
                           Inr (map (\<lambda>p. (init_volt - coeff2) * p + coeff2) powers))))"
| "command_output (Constant t duration volt) duration_i steps =
     Inr (replicate (length steps) volt)"
| "command_output (Sine t duration freq amplitude offset) duration_i steps =
     Inr (map (\<lambda>s. sin (2 * pi * freq * duration * s) * amplitude + offset) steps)"

text \<open>
  The loop of lines 203 to 243 over the commands, each paired with its resolved
  duration. \<open>np.linspace(0, 1, t_end_idx - t_init_idx)\<close> raises \<open>ValueError\<close> when the
  end index is below the start index.
\<close>

fun output_loop ::
  "npfloat \<Rightarrow> real \<Rightarrow> (command \<times> real) list \<Rightarrow> real list \<Rightarrow> error + real list" where
  "output_loop total_duration t_init [] out_values = Inr out_values"
| "output_loop total_duration t_init ((command, duration_i) # rest) out_values =
     (case t_init_idx total_duration t_init command of
        Inl e \<Rightarrow> Inl e
      | Inr i0 \<Rightarrow>
          (case t_end_idx total_duration t_init command duration_i of
             Inl e \<Rightarrow> Inl e
           | Inr i1 \<Rightarrow>
               if i1 < i0 then Inl ValueError
               else
                 (case command_output command duration_i (np_linspace 0 1 (i1 - i0)) of
                    Inl e \<Rightarrow> Inl e
                  | Inr out \<Rightarrow>
                      output_loop total_duration t_init rest
                        (slice_assign out_values i0 i1 out))))"

text \<open>The two datasets written to the shot file.\<close>

record artifact =
  total_duration :: npfloat
  out_values :: "real list"

text \<open>
  \<open>generate_code\<close>: nothing is written when there are no commands; otherwise the
  durations are resolved, the burst frequency is rounded down, \<open>total_duration\<close> is set
  to \<open>1/rounded_freq\<close>, and the buffer of \<open>2**14\<close> zeros is filled command by command.
\<close>

definition generate_code :: "device \<Rightarrow> error + artifact option" where
  "generate_code self =
     (if commands self = [] then Inr None
      else
        case resolve_durations (commands self) of
          Inl e \<Rightarrow> Inl e
        | Inr durations \<Rightarrow>
            (case requested_duration (commands self) durations of
               Inl e \<Rightarrow> Inl e
             | Inr requested \<Rightarrow>
                 (case burst_frequency (commands self) requested of
                    Inl e \<Rightarrow> Inl e
                  | Inr frequency \<Rightarrow>
                      let rounded_freq = round_down_frequency frequency;
                          total = np_reciprocal rounded_freq;
                          t_init = Min (set (map cmd_t (commands self)))
                      in (case output_loop total t_init (zip (commands self) durations)
                                 (replicate (2 ^ 14) 0) of
                            Inl e \<Rightarrow> Inl e
                          | Inr out \<Rightarrow>
                              Inr (Some \<lparr>total_duration = total, out_values = out\<rparr>)))))"

section \<open>The BLACS tab \<open>red_pitaya_pyrpl_asg_tab\<close> (blacs\_tabs.py)\<close>

datatype mode = MODE_MANUAL | MODE_BUFFERED | MODE_TRANSITION_TO_MANUAL

text \<open>A value passed to a worker: the text of the waveform box, or a number.\<close>

datatype attr_value = Text string | Number real

text \<open>
  The dictionary returned by the primary worker's \<open>transition_to_manual\<close>, with its four
  keys \<open>'waveform'\<close>, \<open>'frequency'\<close>, \<open>'amplitude'\<close> and \<open>'offset'\<close>.
\<close>

record attr_dict =
  attr_waveform :: string
  attr_frequency :: real
  attr_amplitude :: real
  attr_offset :: real

text \<open>Calls into the base class \<open>DeviceTab\<close> that follow a successful transition.\<close>

datatype base_call = Program_device | Store_front_panel_values

text \<open>
  The tab: its mode, the four widgets of the front panel, its workers, the final values
  of the run with the output widgets they go to, and what it has sent out: the work
  queued for workers (worker, function, arguments), the notifications put on
  \<open>notify_queue\<close>, and the calls into the base class.
\<close>

record tab =
  device_name :: string
  mode :: mode
  waveform0_box :: string
  amplitude0_spinbox :: real
  offset0_spinbox :: real
  frequency0_spinbox :: real
  primary_worker :: string
  secondary_workers :: "string list"
  final_values :: "(string \<times> real) list"
  AO :: "string \<rightharpoonup> real"
  DO :: "string \<rightharpoonup> real"
  image :: "string \<rightharpoonup> real"
  DDS :: "string \<rightharpoonup> real"
  queued_work :: "(string \<times> string \<times> attr_value list) list"
  notify_queue :: "(string \<times> string) list"
  base_calls :: "base_call list"

definition queue_work :: "tab \<Rightarrow> string \<Rightarrow> string \<Rightarrow> attr_value list \<Rightarrow> tab" where
  "queue_work self worker func args =
     self\<lparr>queued_work := queued_work self @ [(worker, func, args)]\<rparr>"

subsection \<open>\<open>update_attributes\<close>\<close>

text \<open>
  Python 3's \<open>round(x)\<close> with one argument: the nearest integer, a tie going to the even
  one.
\<close>

definition py_round :: "real \<Rightarrow> int" where
  "py_round x =
     (let f = \<lfloor>x\<rfloor>; r = x - real_of_int f
      in if r < 1 / 2 then f
         else if 1 / 2 < r then f + 1
         else if even f then f else f + 1)"

text \<open>\<open>nearest_multiple = step * round(attr_value_check/step)\<close>.\<close>

definition nearest_multiple :: "real \<Rightarrow> real \<Rightarrow> real" where
  "nearest_multiple step attr_value_check =
     step * real_of_int (py_round (attr_value_check / step))"

definition update_attributes :: "tab \<Rightarrow> string \<Rightarrow> error option \<times> tab" where
  "update_attributes self which_attr =
     (if which_attr = ''waveform''
      then (None, queue_work self (primary_worker self) ''update_asg''
                    [Text (waveform0_box self), Text which_attr])
      else if which_attr = ''amplitude''
      then (let attr_value = nearest_multiple (12207 / 100000000) (amplitude0_spinbox self);
                self1 = self\<lparr>amplitude0_spinbox := attr_value\<rparr>
            in (None, queue_work self1 (primary_worker self1) ''update_asg''
                        [Number attr_value, Text which_attr]))
      else if which_attr = ''offset''
      then (let attr_value = nearest_multiple (12207 / 100000000) (offset0_spinbox self);
                self1 = self\<lparr>offset0_spinbox := attr_value\<rparr>
            in (None, queue_work self1 (primary_worker self1) ''update_asg''
                        [Number attr_value, Text which_attr]))
      else if which_attr = ''frequency''
      then (let attr_value = nearest_multiple (116415 / 1000000) (frequency0_spinbox self);
                self1 = self\<lparr>frequency0_spinbox := attr_value\<rparr>
            in (None, queue_work self1 (primary_worker self1) ''update_asg''
                        [Number attr_value, Text which_attr]))
      else (Some TypeError, self))"

subsection \<open>\<open>transition_to_manual\<close>\<close>

text \<open>
  The loop over \<open>self._secondary_workers\<close>. The answer a worker gives is not the tab's to
  decide: \<open>reply n\<close> is what the \<open>n\<close>-th secondary request returns. The loop carries
  \<open>success\<close> and has no \<open>break\<close>.
\<close>

fun secondary_loop :: "(nat \<Rightarrow> bool) \<Rightarrow> nat \<Rightarrow> string list \<Rightarrow> bool \<times> tab \<Rightarrow> bool \<times> tab" where
  "secondary_loop reply n [] (success, self) = (success, self)"
| "secondary_loop reply n (worker # rest) (success, self) =
     (let self1 = queue_work self worker ''transition_to_manual'' [];
          transition_success = reply n
      in secondary_loop reply (Suc n) rest
           (if \<not> transition_success then False else success, self1))"

text \<open>
  One iteration of the loop over \<open>self._final_values.items()\<close>: the value goes to the
  widget of the first of \<open>_AO\<close>, \<open>_DO\<close>, \<open>_image\<close>, \<open>_DDS\<close> that has the channel.
\<close>

definition set_final_value :: "string \<times> real \<Rightarrow> tab \<Rightarrow> tab" where
  "set_final_value cv self =
     (let channel = fst cv; v = snd cv
      in if channel \<in> dom (AO self) then self\<lparr>AO := (AO self)(channel \<mapsto> v)\<rparr>
         else if channel \<in> dom (DO self) then self\<lparr>DO := (DO self)(channel \<mapsto> v)\<rparr>
         else if channel \<in> dom (image self) then self\<lparr>image := (image self)(channel \<mapsto> v)\<rparr>
         else if channel \<in> dom (DDS self) then self\<lparr>DDS := (DDS self)(channel \<mapsto> v)\<rparr>
         else self)"

text \<open>
  \<open>transition_to_manual(notify_queue, program)\<close>, given the pair the primary worker
  returns and the answers of the secondary workers.
\<close>

definition transition_to_manual ::
  "tab \<Rightarrow> bool \<Rightarrow> bool \<times> attr_dict \<Rightarrow> (nat \<Rightarrow> bool) \<Rightarrow> error option \<times> tab" where
  "transition_to_manual self program primary_reply reply =
     (let self1 = self\<lparr>mode := MODE_TRANSITION_TO_MANUAL\<rparr>;
          self2 = queue_work self1 (primary_worker self1) ''transition_to_manual'' [];
          success = fst primary_reply;
          attr_dict = snd primary_reply;
          self3 = self2\<lparr>amplitude0_spinbox := attr_amplitude attr_dict,
                        offset0_spinbox := attr_offset attr_dict,
                        frequency0_spinbox := attr_frequency attr_dict,
                        waveform0_box := attr_waveform attr_dict\<rparr>;
          looped = secondary_loop reply 0 (secondary_workers self3) (success, self3);
          success1 = fst looped;
          self4 = fold set_final_value (final_values (snd looped)) (snd looped)
      in if success1
         then (let self5 = self4\<lparr>notify_queue := notify_queue self4 @
                                    [(device_name self4, ''success'')],
                                 mode := MODE_MANUAL\<rparr>
               in (None, self5\<lparr>base_calls := base_calls self5 @
                           [if program then Program_device else Store_front_panel_values]\<rparr>))
         else (Some (Exception
                 ''Could not transition to manual. You must restart this device to continue''),
               self4\<lparr>notify_queue := notify_queue self4 @ [(device_name self4, ''fail'')]\<rparr>))"

section \<open>Properties of the numpy operations\<close>

lemma argmin_scan_bound: "best < i \<Longrightarrow> argmin_scan xs i best v < i + length xs"
proof (induction xs arbitrary: i best v)
  case Nil
  then show ?case by simp
next
  case (Cons x xs)
  have "argmin_scan xs (Suc i) i x < Suc i + length xs"
    by (rule Cons.IH) simp
  moreover have "argmin_scan xs (Suc i) best v < Suc i + length xs"
    by (rule Cons.IH) (use Cons.prems in simp)
  ultimately show ?case by simp
qed

lemma np_argmin_bound: "np_argmin a = Inr k \<Longrightarrow> k < length a"
  using argmin_scan_bound [of 0 1] by (auto simp: np_argmin_def split: list.splits)

lemma argmin_scan_keep: "\<forall>j<length xs. v \<le> xs ! j \<Longrightarrow> argmin_scan xs i best v = best"
proof (induction xs arbitrary: i)
  case Nil
  then show ?case by simp
next
  case (Cons x xs)
  from Cons.prems have "v \<le> x" by (metis length_greater_0_conv list.discI nth_Cons_0)
  moreover from Cons.prems have "\<forall>j<length xs. v \<le> xs ! j" by fastforce
  ultimately show ?case using Cons.IH by simp
qed

lemma argmin_scan_first_min:
  "k < length xs \<Longrightarrow> xs ! k < v \<Longrightarrow> \<forall>j<length xs. xs ! k \<le> xs ! j \<Longrightarrow>
   \<forall>j<k. xs ! k < xs ! j \<Longrightarrow> argmin_scan xs i best v = i + k"
proof (induction xs arbitrary: i best v k)
  case Nil
  then show ?case by simp
next
  case (Cons x xs)
  show ?case
  proof (cases k)
    case 0
    with Cons.prems have xv: "x < v" and "\<forall>j<length xs. x \<le> xs ! j" by auto
    then show ?thesis using 0 by (simp add: argmin_scan_keep)
  next
    case (Suc k')
    with Cons.prems have k': "k' < length xs" and lt: "xs ! k' < v"
      and le: "\<forall>j<length xs. xs ! k' \<le> xs ! j" and st: "\<forall>j<k'. xs ! k' < xs ! j"
      and x: "xs ! k' < x" by fastforce+
    show ?thesis
      using Cons.IH [OF k' lt le st] Cons.IH [OF k' x le st] Suc by simp
  qed
qed

lemma np_argmin_eqI:
  assumes "k < length a" and "\<forall>j<length a. a ! k \<le> a ! j" and "\<forall>j<k. a ! k < a ! j"
  shows "np_argmin a = Inr k"
proof (cases a)
  case Nil
  with assms show ?thesis by simp
next
  case (Cons x xs)
  show ?thesis
  proof (cases k)
    case 0
    with assms Cons have "\<forall>j<length xs. x \<le> xs ! j" by auto
    then show ?thesis using Cons 0 by (simp add: np_argmin_def argmin_scan_keep)
  next
    case (Suc k')
    with assms Cons have k': "k' < length xs" and x: "xs ! k' < x"
      and le: "\<forall>j<length xs. xs ! k' \<le> xs ! j" and st: "\<forall>j<k'. xs ! k' < xs ! j"
      by fastforce+
    show ?thesis
      using argmin_scan_first_min [OF k' x le st, of 1 0] Cons Suc by (simp add: np_argmin_def)
  qed
qed

lemma np_linspace_length: "length (np_linspace start stop num) = num"
  by (simp add: np_linspace_def)

lemma np_linspace_nth:
  "k < num \<Longrightarrow> 2 \<le> num \<Longrightarrow>
   np_linspace start stop num ! k = start + real k * ((stop - start) / real (num - 1))"
  by (auto simp: np_linspace_def)

lemma ts_index_bound: "ts_index td x = Inr k \<Longrightarrow> k < 2 ^ 14"
  by (cases td) (auto simp: ts_index_def np_linspace_length dest!: np_argmin_bound)

lemma ts_index_nearest:
  assumes T: "0 < T" and i: "i < 2 ^ 14"
    and lo: "(real i - 1 / 2) * (T / 16383) < x"
    and hi: "x \<le> (real i + 1 / 2) * (T / 16383)"
  shows "ts_index (Fin T) x = Inr i"
proof -
  define c where "c = T / 16383"
  have c: "0 < c" using T by (simp add: c_def)
  let ?a = "map (\<lambda>v. \<bar>v - x\<bar>) (np_linspace 0 T (2 ^ 14))"
  have nth: "?a ! j = \<bar>real j * c - x\<bar>" if "j < 2 ^ 14" for j
    using that by (simp add: np_linspace_length np_linspace_nth c_def)
  have lo': "real i * c - c / 2 < x"
    using lo by (simp add: c_def algebra_simps)
  have hi': "x \<le> real i * c + c / 2"
    using hi by (simp add: c_def algebra_simps)
  have here: "\<bar>real i * c - x\<bar> \<le> c / 2"
    using lo' hi' by linarith
  have above: "c / 2 \<le> \<bar>real j * c - x\<bar>" if "i < j" for j
  proof -
    from that have "real i + 1 \<le> real j" by simp
    then have "(real i + 1) * c \<le> real j * c"
      using c by (intro mult_right_mono) simp_all
    then have "real i * c + c \<le> real j * c" by (simp add: algebra_simps)
    with hi' show ?thesis by linarith
  qed
  have below: "c / 2 < \<bar>real j * c - x\<bar>" if "j < i" for j
  proof -
    from that have "real j \<le> real i - 1" by simp
    then have "real j * c \<le> (real i - 1) * c"
      using c by (intro mult_right_mono) simp_all
    then have "real j * c \<le> real i * c - c" by (simp add: algebra_simps)
    with lo' show ?thesis by linarith
  qed
  have "np_argmin ?a = Inr i"
  proof (rule np_argmin_eqI)
    show "i < length ?a" using i by (simp add: np_linspace_length)
    show "\<forall>j<length ?a. ?a ! i \<le> ?a ! j"
    proof (intro allI impI)
      fix j assume "j < length ?a"
      then have j: "j < 2 ^ 14" by (simp add: np_linspace_length)
      consider "j < i" | "j = i" | "i < j" by linarith
      then have "\<bar>real i * c - x\<bar> \<le> \<bar>real j * c - x\<bar>"
      proof cases
        case 1
        then show ?thesis using here below [of j] by linarith
      next
        case 2
        then show ?thesis by simp
      next
        case 3
        then show ?thesis using here above [of j] by linarith
      qed
      then show "?a ! i \<le> ?a ! j" unfolding nth [OF i] nth [OF j] .
    qed
    show "\<forall>j<i. ?a ! i < ?a ! j"
    proof (intro allI impI)
      fix j assume ji: "j < i"
      then have j: "j < 2 ^ 14" using i by simp
      have "\<bar>real i * c - x\<bar> < \<bar>real j * c - x\<bar>"
        using here below [OF ji] by linarith
      then show "?a ! i < ?a ! j" unfolding nth [OF i] nth [OF j] .
    qed
  qed
  then show ?thesis by (simp add: ts_index_def)
qed


lemma those_length: "those xs = Some ys \<Longrightarrow> length ys = length xs"
  by (induction xs arbitrary: ys) (auto split: option.splits)

lemma command_output_length:
  "command_output c d steps = Inr out \<Longrightarrow> length out = length steps"
  by (cases c)
     (auto simp: Let_def dest!: those_length split: if_splits option.splits)

lemma slice_assign_length:
  "i \<le> j \<Longrightarrow> j \<le> length arr \<Longrightarrow> length vals = j - i \<Longrightarrow>
   length (slice_assign arr i j vals) = length arr"
  by (simp add: slice_assign_def)

lemma slice_assign_nth_outside:
  "i \<le> j \<Longrightarrow> j \<le> length arr \<Longrightarrow> length vals = j - i \<Longrightarrow> \<not> (i \<le> k \<and> k < j) \<Longrightarrow>
   slice_assign arr i j vals ! k = arr ! k"
  by (auto simp: slice_assign_def nth_append)

lemma slice_assign_nth_inside:
  "i \<le> k \<Longrightarrow> k < j \<Longrightarrow> i \<le> length arr \<Longrightarrow> length vals = j - i \<Longrightarrow>
   slice_assign arr i j vals ! k = vals ! (k - i)"
  by (auto simp: slice_assign_def nth_append)

lemma output_loop_step:
  assumes "output_loop td t0 ((c, d) # rest) buf = Inr out"
  obtains i0 i1 vals where "t_init_idx td t0 c = Inr i0" "t_end_idx td t0 c d = Inr i1"
    "i0 \<le> i1" "i1 < 2 ^ 14"
    "command_output c d (np_linspace 0 1 (i1 - i0)) = Inr vals" "length vals = i1 - i0"
    "output_loop td t0 rest (slice_assign buf i0 i1 vals) = Inr out"
proof -
  from assms obtain i0 where i0: "t_init_idx td t0 c = Inr i0"
    by (cases "t_init_idx td t0 c") auto
  from assms i0 obtain i1 where i1: "t_end_idx td t0 c d = Inr i1"
    by (cases "t_end_idx td t0 c d") auto
  from assms i0 i1 have le: "i0 \<le> i1"
    by (auto split: if_splits)
  from assms i0 i1 le obtain vals
    where vals: "command_output c d (np_linspace 0 1 (i1 - i0)) = Inr vals"
    by (cases "command_output c d (np_linspace 0 1 (i1 - i0))") auto
  from assms i0 i1 le vals
  have rest: "output_loop td t0 rest (slice_assign buf i0 i1 vals) = Inr out"
    by simp
  have "i1 < 2 ^ 14" using i1 by (auto simp: t_end_idx_def dest: ts_index_bound)
  moreover have "length vals = i1 - i0"
    using command_output_length [OF vals] by (simp add: np_linspace_length)
  ultimately show ?thesis using that i0 i1 le vals rest by blast
qed

lemma output_loop_length:
  "output_loop td t0 xs buf = Inr out \<Longrightarrow> length buf = 2 ^ 14 \<Longrightarrow> length out = 2 ^ 14"
proof (induction xs arbitrary: buf)
  case Nil
  then show ?case by simp
next
  case (Cons p xs)
  obtain c d where p: "p = (c, d)" by (cases p)
  from Cons.prems(1) [unfolded p] show ?case
  proof (rule output_loop_step)
    fix i0 i1 vals
    assume "i0 \<le> i1" "i1 < 2 ^ 14" "length vals = i1 - i0"
      and rest: "output_loop td t0 xs (slice_assign buf i0 i1 vals) = Inr out"
    then have "length (slice_assign buf i0 i1 vals) = 2 ^ 14"
      using Cons.prems(2) by (simp add: slice_assign_length)
    with rest show ?thesis by (rule Cons.IH)
  qed
qed

lemma output_loop_untouched:
  "output_loop td t0 xs buf = Inr out \<Longrightarrow> length buf = 2 ^ 14 \<Longrightarrow>
   (\<And>c d i0 i1. (c, d) \<in> set xs \<Longrightarrow> t_init_idx td t0 c = Inr i0 \<Longrightarrow>
      t_end_idx td t0 c d = Inr i1 \<Longrightarrow> \<not> (i0 \<le> k \<and> k < i1)) \<Longrightarrow>
   out ! k = buf ! k"
proof (induction xs arbitrary: buf)
  case Nil
  then show ?case by simp
next
  case (Cons p xs)
  obtain c d where p: "p = (c, d)" by (cases p)
  from Cons.prems(1) [unfolded p] show ?case
  proof (rule output_loop_step)
    fix i0 i1 vals
    assume i0: "t_init_idx td t0 c = Inr i0" and i1: "t_end_idx td t0 c d = Inr i1"
      and le: "i0 \<le> i1" and bound: "i1 < 2 ^ 14" and len: "length vals = i1 - i0"
      and rest: "output_loop td t0 xs (slice_assign buf i0 i1 vals) = Inr out"
    have out: "\<not> (i0 \<le> k \<and> k < i1)"
      using Cons.prems(3) [of c d i0 i1] i0 i1 p by simp
    have "length (slice_assign buf i0 i1 vals) = 2 ^ 14"
      using le bound len Cons.prems(2) by (simp add: slice_assign_length)
    with rest have "out ! k = slice_assign buf i0 i1 vals ! k"
      by (rule Cons.IH) (use Cons.prems(3) in auto)
    also have "\<dots> = buf ! k"
      using le bound len Cons.prems(2) out by (intro slice_assign_nth_outside) simp_all
    finally show ?thesis .
  qed
qed

lemma output_loop_append:
  "output_loop td t0 (xs @ ys) buf =
     (case output_loop td t0 xs buf of Inl e \<Rightarrow> Inl e | Inr b \<Rightarrow> output_loop td t0 ys b)"
  by (induction xs arbitrary: buf) (auto split: sum.splits)

section \<open>Duration resolution\<close>

lemma np_diff_length: "length (np_diff a) = length a - 1"
  by (simp add: np_diff_def)

lemma np_diff_nth: "Suc i < length a \<Longrightarrow> np_diff a ! i = a ! Suc i - a ! i"
proof -
  assume "Suc i < length a"
  then have "i < length a - 1" by simp
  then show ?thesis by (simp add: np_diff_def)
qed

lemma replace_zero_durations_nth:
  "\<forall>i\<in>set zero_dur. i < length time_diffs \<Longrightarrow>
   \<exists>ds. replace_zero_durations time_diffs zero_dur durations = Inr ds \<and>
        length ds = length durations \<and>
        (\<forall>i<length durations. ds ! i = (if i \<in> set zero_dur then time_diffs ! i else durations ! i))"
proof (induction zero_dur arbitrary: durations)
  case Nil
  then show ?case by simp
next
  case (Cons z zero_dur)
  from Cons.prems have z: "z < length time_diffs" and rest: "\<forall>i\<in>set zero_dur. i < length time_diffs"
    by simp_all
  from Cons.IH [OF rest, of "durations[z := time_diffs ! z]"]
  obtain ds where ds: "replace_zero_durations time_diffs zero_dur (durations[z := time_diffs ! z]) = Inr ds"
    and len: "length ds = length durations"
    and nth: "\<forall>i<length durations. ds ! i =
       (if i \<in> set zero_dur then time_diffs ! i else (durations[z := time_diffs ! z]) ! i)"
    by auto
  have "replace_zero_durations time_diffs (z # zero_dur) durations = Inr ds"
    using z ds by simp
  moreover have "\<forall>i<length durations. ds ! i =
      (if i \<in> set (z # zero_dur) then time_diffs ! i else durations ! i)"
    using nth by (auto simp: nth_list_update)
  ultimately show ?case using len by blast
qed

lemma resolve_durations_error:
  "cmds \<noteq> [] \<Longrightarrow> cmd_duration (last cmds) = 0 \<Longrightarrow> resolve_durations cmds = Inl LabscriptError"
  by (simp add: resolve_durations_def last_map)

lemma resolve_durations_ok:
  assumes ne: "cmds \<noteq> []" and lst: "cmd_duration (last cmds) \<noteq> 0"
  shows "\<exists>ds. resolve_durations cmds = Inr ds \<and> length ds = length cmds \<and>
           (\<forall>i<length cmds. ds ! i =
              (if cmd_duration (cmds ! i) = 0 then cmd_t (cmds ! Suc i) - cmd_t (cmds ! i)
               else cmd_duration (cmds ! i)))"
proof -
  let ?times = "map cmd_t cmds" and ?durations = "map cmd_duration cmds"
  let ?zero_dur = "filter (\<lambda>i. ?durations ! i = 0) [0..<length ?durations]"
  have zero: "Suc i < length cmds" if "i < length cmds" "cmd_duration (cmds ! i) = 0" for i
  proof (rule ccontr)
    assume "\<not> Suc i < length cmds"
    with that have "i = length cmds - 1" by simp
    with ne have "cmds ! i = last cmds" by (simp add: last_conv_nth)
    with that lst show False by simp
  qed
  have "\<forall>i\<in>set ?zero_dur. i < length (np_diff ?times)"
  proof
    fix i assume "i \<in> set ?zero_dur"
    then have "i < length cmds" "cmd_duration (cmds ! i) = 0" by auto
    then have "Suc i < length cmds" by (rule zero)
    then show "i < length (np_diff ?times)" by (simp add: np_diff_length)
  qed
  from replace_zero_durations_nth [OF this, of ?durations]
  obtain ds where ds: "replace_zero_durations (np_diff ?times) ?zero_dur ?durations = Inr ds"
    and len: "length ds = length cmds"
    and nth: "\<forall>i<length cmds. ds ! i =
       (if i \<in> set ?zero_dur then np_diff ?times ! i else ?durations ! i)"
    by auto
  have "resolve_durations cmds = Inr ds"
    using ne lst ds by (simp add: resolve_durations_def last_map Let_def)
  moreover have "ds ! i = (if cmd_duration (cmds ! i) = 0 then cmd_t (cmds ! Suc i) - cmd_t (cmds ! i)
               else cmd_duration (cmds ! i))" if i: "i < length cmds" for i
  proof (cases "cmd_duration (cmds ! i) = 0")
    case True
    with i have "Suc i < length cmds" by (rule zero)
    then show ?thesis using nth i True by (simp add: np_diff_nth)
  next
    case False
    then show ?thesis using nth i by simp
  qed
  ultimately show ?thesis using len by blast
qed

text \<open>
  Claim C1 as stated: whenever the last command has a nonzero duration, no command is
  left with a zero duration. Two commands at the same start time, the first with
  duration 0, refute it: the first command's duration is replaced by the time
  difference, which is 0.
\<close>

theorem zero_duration_remains_counterexample:
  "cmd_duration (last [Constant 0 0 (1 / 2), Constant 0 1 (1 / 2)]) \<noteq> 0 \<and>
   resolve_durations [Constant 0 0 (1 / 2), Constant 0 1 (1 / 2)] = Inr [0, 1]"
  by (simp add: resolve_durations_def np_diff_def Let_def)

text \<open>
  Claim C1, amended. For a non-empty timeline whose last command has a nonzero duration,
  and in which every command of duration 0 is followed by a command at a different start
  time, the resolution succeeds, every command of duration 0 receives the difference to
  the start time of the command after it (by position), every other duration is kept,
  and no resolved duration is zero.
\<close>

theorem resolved_durations_nonzero:
  assumes "cmds \<noteq> []" and "cmd_duration (last cmds) \<noteq> 0"
    and "\<forall>i. Suc i < length cmds \<and> cmd_duration (cmds ! i) = 0 \<longrightarrow>
             cmd_t (cmds ! Suc i) \<noteq> cmd_t (cmds ! i)"
  shows "\<exists>ds. resolve_durations cmds = Inr ds \<and> length ds = length cmds \<and>
           (\<forall>i<length cmds. ds ! i \<noteq> 0 \<and>
              ds ! i = (if cmd_duration (cmds ! i) = 0
                        then cmd_t (cmds ! Suc i) - cmd_t (cmds ! i)
                        else cmd_duration (cmds ! i)))"
proof -
  from resolve_durations_ok [OF assms(1,2)]
  obtain ds where ds: "resolve_durations cmds = Inr ds" and len: "length ds = length cmds"
    and nth: "\<forall>i<length cmds. ds ! i =
              (if cmd_duration (cmds ! i) = 0 then cmd_t (cmds ! Suc i) - cmd_t (cmds ! i)
               else cmd_duration (cmds ! i))"
    by blast
  have "ds ! i \<noteq> 0" if i: "i < length cmds" for i
  proof (cases "cmd_duration (cmds ! i) = 0")
    case True
    have "Suc i < length cmds"
    proof (rule ccontr)
      assume "\<not> Suc i < length cmds"
      with i have "i = length cmds - 1" by simp
      with assms(1) have "cmds ! i = last cmds" by (simp add: last_conv_nth)
      with True assms(2) show False by simp
    qed
    with True assms(3) have "cmd_t (cmds ! Suc i) \<noteq> cmd_t (cmds ! i)" by blast
    then show ?thesis using nth i True by simp
  next
    case False
    then show ?thesis using nth i by simp
  qed
  with ds len nth show ?thesis by blast
qed

text \<open>
  An instance: a constant at \<open>t = 0\<close> with duration 0, followed by a linear ramp at
  \<open>t = 1/2\<close>.
\<close>

theorem resolved_durations_nonzero_witness:
  "resolve_durations [Constant 0 0 (1 / 2), LinearRamp (1 / 2) (1 / 2) (1 / 2) (1 / 10)]
     = Inr [1 / 2, 1 / 2]
   \<and> [1 / 2, 1 / 2 :: real] ! 0 \<noteq> 0 \<and> [1 / 2, 1 / 2 :: real] ! 1 \<noteq> 0"
proof -
  let ?cmds = "[Constant 0 0 (1 / 2), LinearRamp (1 / 2) (1 / 2) (1 / 2) (1 / 10)]"
  have "\<exists>ds. resolve_durations ?cmds = Inr ds \<and> length ds = length ?cmds \<and>
           (\<forall>i<length ?cmds. ds ! i \<noteq> 0 \<and>
              ds ! i = (if cmd_duration (?cmds ! i) = 0
                        then cmd_t (?cmds ! Suc i) - cmd_t (?cmds ! i)
                        else cmd_duration (?cmds ! i)))"
    by (rule resolved_durations_nonzero) (simp_all add: less_Suc_eq)
  then obtain ds where ds: "resolve_durations ?cmds = Inr ds"
    and nz: "ds ! 0 \<noteq> 0" "ds ! 1 \<noteq> 0"
    by auto
  have "resolve_durations ?cmds = Inr [1 / 2, 1 / 2]"
    by (simp add: resolve_durations_def np_diff_def Let_def)
  with ds nz show ?thesis by simp
qed

section \<open>The schedule error\<close>

lemma list_index_error: "list_index xs x = Inl e \<Longrightarrow> e = ValueError"
  by (induction xs arbitrary: e) (auto split: if_splits sum.splits)

lemma requested_duration_not_labscript:
  "requested_duration cmds ds \<noteq> Inl LabscriptError"
  by (auto simp: requested_duration_def Let_def split: sum.splits if_splits
           dest: list_index_error)

lemma burst_frequency_not_labscript:
  "burst_frequency cmds S \<noteq> Inl LabscriptError"
  by (auto simp: burst_frequency_def split: sum.splits if_splits dest: list_index_error)

lemma ts_index_not_labscript: "ts_index td x \<noteq> Inl LabscriptError"
  by (cases td) (auto simp: ts_index_def np_argmin_def split: list.splits)

lemma command_output_not_labscript: "command_output c d steps \<noteq> Inl LabscriptError"
  by (cases c) (auto simp: Let_def split: if_splits option.splits)

lemma output_loop_not_labscript: "output_loop td t0 xs buf \<noteq> Inl LabscriptError"
proof (induction xs arbitrary: buf)
  case Nil
  then show ?case by simp
next
  case (Cons p xs)
  obtain c d where p: "p = (c, d)" by (cases p)
  show ?case
    using Cons.IH ts_index_not_labscript command_output_not_labscript
    by (auto simp: p t_init_idx_def t_end_idx_def split: sum.splits if_splits)
qed

lemma generate_code_labscript_iff:
  assumes "commands self \<noteq> []"
  shows "generate_code self = Inl LabscriptError \<longleftrightarrow> cmd_duration (last (commands self)) = 0"
proof (cases "cmd_duration (last (commands self)) = 0")
  case True
  with assms show ?thesis
    by (simp add: generate_code_def resolve_durations_error)
next
  case False
  from resolve_durations_ok [OF assms False]
  obtain ds where "resolve_durations (commands self) = Inr ds" by blast
  with assms False show ?thesis
    using requested_duration_not_labscript burst_frequency_not_labscript
      output_loop_not_labscript
    by (auto simp: generate_code_def Let_def split: sum.splits)
qed

text \<open>
  Claim C2. For a non-empty timeline \<open>generate_code\<close> raises \<open>LabscriptError\<close> exactly
  when the last command's duration is 0. The error comes from the duration resolution,
  the first stage, so no frequency is rounded and no buffer is filled before it; no later
  stage raises a \<open>LabscriptError\<close>. When it is not raised, every duration 0 has been
  replaced by the difference to the next command's start time, by position.
\<close>

theorem generate_code_schedule_error:
  assumes "commands self \<noteq> []"
  shows "(generate_code self = Inl LabscriptError \<longleftrightarrow> cmd_duration (last (commands self)) = 0)
       \<and> (cmd_duration (last (commands self)) = 0 \<longrightarrow>
            resolve_durations (commands self) = Inl LabscriptError)
       \<and> (cmd_duration (last (commands self)) \<noteq> 0 \<longrightarrow>
            (\<exists>ds. resolve_durations (commands self) = Inr ds \<and>
                  length ds = length (commands self) \<and>
                  (\<forall>i<length (commands self). ds ! i =
                     (if cmd_duration (commands self ! i) = 0
                      then cmd_t (commands self ! Suc i) - cmd_t (commands self ! i)
                      else cmd_duration (commands self ! i)))))"
  using assms generate_code_labscript_iff [OF assms] resolve_durations_error
    resolve_durations_ok [OF assms]
  by blast

text \<open>
  Two instances: a single constant of duration 0, which raises, and a single constant of
  duration 1, which does not.
\<close>

theorem generate_code_schedule_error_witness:
  "commands (snd (constant_cmd (init_device (1 / 1000)) 0 0 (1 / 2))) \<noteq> [] \<and>
   generate_code (snd (constant_cmd (init_device (1 / 1000)) 0 0 (1 / 2))) = Inl LabscriptError \<and>
   commands (snd (constant_cmd (init_device (1 / 1000)) 0 1 (1 / 2))) \<noteq> [] \<and>
   generate_code (snd (constant_cmd (init_device (1 / 1000)) 0 1 (1 / 2))) \<noteq> Inl LabscriptError"
proof -
  let ?d0 = "snd (constant_cmd (init_device (1 / 1000)) 0 0 (1 / 2))"
  let ?d1 = "snd (constant_cmd (init_device (1 / 1000)) 0 1 (1 / 2))"
  have c0: "commands ?d0 = [Constant 0 0 (1 / 2)]" and c1: "commands ?d1 = [Constant 0 1 (1 / 2)]"
    by (simp_all add: constant_cmd_def init_device_def trigger_def)
  have n0: "commands ?d0 \<noteq> []" and n1: "commands ?d1 \<noteq> []"
    by (simp_all add: c0 c1)
  show ?thesis
    using generate_code_schedule_error [OF n0] generate_code_schedule_error [OF n1] n0 n1
    by (simp add: c0 c1)
qed


section \<open>Two compiled timelines\<close>

text \<open>
  Two timelines of total duration 1. The frequency 1 is rounded down to
  \<open>8 * 0.116415 = 0.93132\<close>, so \<open>total_duration\<close> becomes \<open>1/0.93132 = 25000/23283\<close>,
  and the times 0, 1/2 and 1 fall on the samples 0, 7629 and 15258.
\<close>

lemma ts_index_scenario:
  "ts_index (Fin (25000 / 23283)) 0 = Inr 0"
  "ts_index (Fin (25000 / 23283)) (1 / 2) = Inr 7629"
  "ts_index (Fin (25000 / 23283)) 1 = Inr 15258"
  by (rule ts_index_nearest; simp)+

lemma hold_then_ramp:
  "\<exists>art. generate_code \<lparr>trig_duration = 1 / 1000,
            commands = [Constant 0 0 (1 / 2), LinearRamp (1 / 2) (1 / 2) (1 / 2) (1 / 10)],
            parent_triggers = [(0, 1 / 1000)]\<rparr> = Inr (Some art)
         \<and> total_duration art = Fin (25000 / 23283)"
  by (simp add: generate_code_def resolve_durations_def np_diff_def requested_duration_def
        burst_frequency_def freq_increment_def t_init_idx_def t_end_idx_def
        ts_index_scenario Let_def)

lemma ramp_then_hold:
  "\<exists>art. generate_code \<lparr>trig_duration = 1 / 1000,
            commands = [LinearRamp 0 (1 / 2) (1 / 2) (1 / 10), Constant (1 / 2) (1 / 2) (1 / 10)],
            parent_triggers = [(0, 1 / 1000)]\<rparr> = Inr (Some art)
         \<and> total_duration art = Fin (25000 / 23283)"
  by (simp add: generate_code_def resolve_durations_def np_diff_def requested_duration_def
        burst_frequency_def freq_increment_def t_init_idx_def t_end_idx_def
        ts_index_scenario Let_def)


section \<open>Frequency quantization\<close>







section \<open>The sample buffer\<close>

lemma generate_code_SomeE:
  assumes "generate_code self = Inr (Some art)"
  obtains durations S frequency where
    "commands self \<noteq> []"
    "resolve_durations (commands self) = Inr durations"
    "requested_duration (commands self) durations = Inr S"
    "burst_frequency (commands self) S = Inr frequency"
    "total_duration art = np_reciprocal (round_down_frequency frequency)"
    "output_loop (total_duration art) (Min (set (map cmd_t (commands self))))
       (zip (commands self) durations) (replicate (2 ^ 14) 0) = Inr (out_values art)"
  using assms unfolding generate_code_def Let_def
  by (auto split: if_splits sum.splits)

lemma resolve_durations_length:
  assumes "resolve_durations cmds = Inr ds"
  shows "length ds = length cmds"
proof -
  have ne: "cmds \<noteq> []" using assms by (auto simp: resolve_durations_def)
  have "cmd_duration (last cmds) \<noteq> 0"
    using assms ne by (auto simp: resolve_durations_def last_map split: if_splits)
  from resolve_durations_ok [OF ne this] assms show ?thesis by auto
qed

text \<open>
  Claim C7. Whenever \<open>generate_code\<close> writes its datasets, \<open>out_values\<close> has exactly
  \<open>2**14 = 16384\<close> entries, and every index that lies in no command's range
  \<open>[t_init_idx, t_end_idx)\<close> holds 0, the value the buffer was created with.
\<close>

theorem buffer_length_and_untouched:
  assumes "generate_code self = Inr (Some art)"
  shows "length (out_values art) = 2 ^ 14 \<and>
         (\<exists>durations. resolve_durations (commands self) = Inr durations \<and>
            (\<forall>k<2 ^ 14.
               (\<forall>i<length (commands self). \<forall>i0 i1.
                   t_init_idx (total_duration art) (Min (set (map cmd_t (commands self))))
                     (commands self ! i) = Inr i0 \<longrightarrow>
                   t_end_idx (total_duration art) (Min (set (map cmd_t (commands self))))
                     (commands self ! i) (durations ! i) = Inr i1 \<longrightarrow>
                   \<not> (i0 \<le> k \<and> k < i1))
               \<longrightarrow> out_values art ! k = 0))"
proof -
  let ?t0 = "Min (set (map cmd_t (commands self)))"
  from assms obtain durations where
    ds: "resolve_durations (commands self) = Inr durations" and
    loop: "output_loop (total_duration art) ?t0 (zip (commands self) durations)
             (replicate (2 ^ 14) 0) = Inr (out_values art)"
    by (rule generate_code_SomeE)
  have len: "length (out_values art) = 2 ^ 14"
    using loop by (rule output_loop_length) simp
  have "out_values art ! k = 0"
    if k: "k < 2 ^ 14"
      and free: "\<forall>i<length (commands self). \<forall>i0 i1.
                   t_init_idx (total_duration art) ?t0 (commands self ! i) = Inr i0 \<longrightarrow>
                   t_end_idx (total_duration art) ?t0 (commands self ! i) (durations ! i) = Inr i1 \<longrightarrow>
                   \<not> (i0 \<le> k \<and> k < i1)"
    for k
  proof -
    have "out_values art ! k = replicate (2 ^ 14) (0::real) ! k"
      using loop
    proof (rule output_loop_untouched)
      show "length (replicate (2 ^ 14) (0::real)) = 2 ^ 14" by simp
    next
      fix c d i0 i1
      assume mem: "(c, d) \<in> set (zip (commands self) durations)"
        and i0: "t_init_idx (total_duration art) ?t0 c = Inr i0"
        and i1: "t_end_idx (total_duration art) ?t0 c d = Inr i1"
      from mem obtain i where "i < length (commands self)" "commands self ! i = c"
        "durations ! i = d"
        by (auto simp: in_set_zip)
      with free i0 i1 show "\<not> (i0 \<le> k \<and> k < i1)" by blast
    qed
    with k show ?thesis by simp
  qed
  with len ds show ?thesis by blast
qed

lemma output_loop_appendE:
  assumes "output_loop td t0 (xs @ ys) buf = Inr out"
  obtains b where "output_loop td t0 xs buf = Inr b" "output_loop td t0 ys b = Inr out"
  using assms by (cases "output_loop td t0 xs buf") (simp_all add: output_loop_append)

text \<open>
  Claim C6. For a linear ramp whose sample range \<open>[i0, i1)\<close> has width at least 2, and
  whose first and last sample lie in no later command's range, the buffer holds
  \<open>init_volt\<close> at \<open>i0\<close> and \<open>final_volt\<close> at \<open>i1 - 1\<close>. (Exactly, over the reals; the
  source computes \<open>(final_volt - init_volt) * 1 + init_volt\<close> in floating point.)
\<close>

theorem linear_ramp_boundaries:
  assumes gen: "generate_code self = Inr (Some art)"
    and ds: "resolve_durations (commands self) = Inr durations"
    and i: "i < length (commands self)"
    and cmd: "commands self ! i = LinearRamp t duration init_volt final_volt"
    and i0: "t_init_idx (total_duration art) (Min (set (map cmd_t (commands self))))
               (commands self ! i) = Inr i0"
    and i1: "t_end_idx (total_duration art) (Min (set (map cmd_t (commands self))))
               (commands self ! i) (durations ! i) = Inr i1"
    and width: "i0 + 2 \<le> i1"
    and later: "\<forall>j. i < j \<and> j < length (commands self) \<longrightarrow>
                 (\<forall>j0 j1.
                    t_init_idx (total_duration art) (Min (set (map cmd_t (commands self))))
                      (commands self ! j) = Inr j0 \<longrightarrow>
                    t_end_idx (total_duration art) (Min (set (map cmd_t (commands self))))
                      (commands self ! j) (durations ! j) = Inr j1 \<longrightarrow>
                    \<not> (j0 \<le> i0 \<and> i0 < j1) \<and> \<not> (j0 \<le> i1 - 1 \<and> i1 - 1 < j1))"
  shows "out_values art ! i0 = init_volt \<and> out_values art ! (i1 - 1) = final_volt"
proof -
  let ?t0 = "Min (set (map cmd_t (commands self)))"
  let ?td = "total_duration art"
  let ?zs = "zip (commands self) durations"
  let ?c = "LinearRamp t duration init_volt final_volt"
  from gen obtain durations' where
    "resolve_durations (commands self) = Inr durations'" and
    "output_loop ?td ?t0 (zip (commands self) durations') (replicate (2 ^ 14) 0)
       = Inr (out_values art)"
    by (rule generate_code_SomeE)
  with ds have loop: "output_loop ?td ?t0 ?zs (replicate (2 ^ 14) 0) = Inr (out_values art)"
    by simp
  have len: "length durations = length (commands self)"
    using ds by (rule resolve_durations_length)
  with i have iz: "i < length ?zs" by simp
  have zi: "?zs ! i = (?c, durations ! i)"
    using i len cmd by simp
  have split: "?zs = take i ?zs @ (?c, durations ! i) # drop (Suc i) ?zs"
    using id_take_nth_drop [OF iz] zi by simp
  from loop have "output_loop ?td ?t0 (take i ?zs @ (?c, durations ! i) # drop (Suc i) ?zs)
      (replicate (2 ^ 14) 0) = Inr (out_values art)"
    by (simp only: split [symmetric])
  then obtain b1 where
    pre: "output_loop ?td ?t0 (take i ?zs) (replicate (2 ^ 14) 0) = Inr b1" and
    post: "output_loop ?td ?t0 ((?c, durations ! i) # drop (Suc i) ?zs) b1 = Inr (out_values art)"
    by (rule output_loop_appendE)
  have b1: "length b1 = 2 ^ 14"
    using pre by (rule output_loop_length) simp
  from post obtain a0 a1 vals where
    a0: "t_init_idx ?td ?t0 ?c = Inr a0" and a1: "t_end_idx ?td ?t0 ?c (durations ! i) = Inr a1"
    and bound': "a1 < 2 ^ 14"
    and vals': "command_output ?c (durations ! i) (np_linspace 0 1 (a1 - a0)) = Inr vals"
    and lvals': "length vals = a1 - a0"
    and rest': "output_loop ?td ?t0 (drop (Suc i) ?zs) (slice_assign b1 a0 a1 vals)
                 = Inr (out_values art)"
    by (rule output_loop_step)
  have eq: "a0 = i0" "a1 = i1"
    using i0 i1 a0 a1 cmd by simp_all
  note bound = bound' [unfolded eq] and vals = vals' [unfolded eq]
    and lvals = lvals' [unfolded eq] and rest = rest' [unfolded eq]
  have vals_eq: "vals = map (\<lambda>s. (final_volt - init_volt) * s + init_volt)
                          (np_linspace 0 1 (i1 - i0))"
    using vals by simp
  have n: "2 \<le> i1 - i0" using width by simp
  have s0: "np_linspace 0 1 (i1 - i0) ! 0 = 0"
    using np_linspace_nth [of 0 "i1 - i0" 0 1] n by simp
  have "real (i1 - i0 - 1) \<noteq> 0" using n by simp
  then have s1: "np_linspace 0 1 (i1 - i0) ! (i1 - i0 - 1) = 1"
    using np_linspace_nth [of "i1 - i0 - 1" "i1 - i0" 0 1] n by simp
  have first: "vals ! 0 = init_volt"
    using n s0 by (simp add: vals_eq np_linspace_length)
  have "vals ! (i1 - i0 - 1) =
      (final_volt - init_volt) * np_linspace 0 1 (i1 - i0) ! (i1 - i0 - 1) + init_volt"
    using n by (simp add: vals_eq np_linspace_length)
  also have "\<dots> = final_volt" unfolding s1 by simp
  finally have "vals ! (i1 - i0 - 1) = final_volt" .
  moreover have "i1 - 1 - i0 = i1 - i0 - 1" by simp
  ultimately have lst: "vals ! (i1 - 1 - i0) = final_volt" by simp
  let ?b2 = "slice_assign b1 i0 i1 vals"
  have b2: "length ?b2 = 2 ^ 14"
    using b1 bound lvals width by (simp add: slice_assign_length)
  have b2_first: "?b2 ! i0 = init_volt"
    using slice_assign_nth_inside [of i0 i0 i1 b1 vals] b1 bound lvals width first by simp
  have b2_last: "?b2 ! (i1 - 1) = final_volt"
    using slice_assign_nth_inside [of i0 "i1 - 1" i1 b1 vals] b1 bound lvals width lst by simp
  have keep: "out_values art ! k = ?b2 ! k" if "k = i0 \<or> k = i1 - 1" for k
    using rest b2
  proof (rule output_loop_untouched)
    fix c d j0 j1
    assume mem: "(c, d) \<in> set (drop (Suc i) ?zs)"
      and c0: "t_init_idx ?td ?t0 c = Inr j0" and c1: "t_end_idx ?td ?t0 c d = Inr j1"
    from mem obtain m where m: "m < length ?zs - Suc i" "drop (Suc i) ?zs ! m = (c, d)"
      by (auto simp: in_set_conv_nth)
    then have "Suc i + m < length (commands self)" "commands self ! (Suc i + m) = c"
      "durations ! (Suc i + m) = d"
      using len by auto
    with later c0 c1 have "\<not> (j0 \<le> i0 \<and> i0 < j1) \<and> \<not> (j0 \<le> i1 - 1 \<and> i1 - 1 < j1)"
      by (metis less_add_Suc1 add_Suc)
    with that show "\<not> (j0 \<le> k \<and> k < j1)" by auto
  qed
  show ?thesis using keep [of i0] keep [of "i1 - 1"] b2_first b2_last by simp
qed

text \<open>
  An instance: the constant followed by the linear ramp fills the samples below 15258;
  sample 16000 is still 0.
\<close>

theorem buffer_length_and_untouched_witness:
  "\<exists>art. generate_code \<lparr>trig_duration = 1 / 1000,
            commands = [Constant 0 0 (1 / 2), LinearRamp (1 / 2) (1 / 2) (1 / 2) (1 / 10)],
            parent_triggers = [(0, 1 / 1000)]\<rparr> = Inr (Some art)
         \<and> length (out_values art) = 16384 \<and> out_values art ! 16000 = 0"
proof -
  let ?d = "\<lparr>trig_duration = 1 / 1000,
            commands = [Constant 0 0 (1 / 2), LinearRamp (1 / 2) (1 / 2) (1 / 2) (1 / 10)],
            parent_triggers = [(0, 1 / 1000)]\<rparr>"
  from hold_then_ramp obtain art where gen: "generate_code ?d = Inr (Some art)"
    and td: "total_duration art = Fin (25000 / 23283)" by blast
  have ds: "resolve_durations (commands ?d) = Inr [1 / 2, 1 / 2]"
    by (simp add: resolve_durations_def np_diff_def Let_def)
  from buffer_length_and_untouched [OF gen] ds
  have len: "length (out_values art) = 2 ^ 14"
    and free: "\<forall>k<2 ^ 14.
       (\<forall>i<length (commands ?d). \<forall>i0 i1.
           t_init_idx (total_duration art) (Min (set (map cmd_t (commands ?d))))
             (commands ?d ! i) = Inr i0 \<longrightarrow>
           t_end_idx (total_duration art) (Min (set (map cmd_t (commands ?d))))
             (commands ?d ! i) ([1 / 2, 1 / 2] ! i) = Inr i1 \<longrightarrow>
           \<not> (i0 \<le> k \<and> k < i1))
       \<longrightarrow> out_values art ! k = 0"
    by auto
  have "out_values art ! 16000 = 0"
    by (rule free [rule_format])
       (auto simp: td t_init_idx_def t_end_idx_def ts_index_scenario less_Suc_eq)
  with gen len show ?thesis by simp
qed


text \<open>
  An instance: a linear ramp from 1/2 to 1/10 over the samples \<open>[0, 7629)\<close>, followed by
  a constant over \<open>[7629, 15258)\<close>.
\<close>

theorem linear_ramp_boundaries_witness:
  "\<exists>art. generate_code \<lparr>trig_duration = 1 / 1000,
            commands = [LinearRamp 0 (1 / 2) (1 / 2) (1 / 10), Constant (1 / 2) (1 / 2) (1 / 10)],
            parent_triggers = [(0, 1 / 1000)]\<rparr> = Inr (Some art)
         \<and> out_values art ! 0 = 1 / 2 \<and> out_values art ! 7628 = 1 / 10"
proof -
  let ?d = "\<lparr>trig_duration = 1 / 1000,
            commands = [LinearRamp 0 (1 / 2) (1 / 2) (1 / 10), Constant (1 / 2) (1 / 2) (1 / 10)],
            parent_triggers = [(0, 1 / 1000)]\<rparr>"
  from ramp_then_hold obtain art where gen: "generate_code ?d = Inr (Some art)"
    and td: "total_duration art = Fin (25000 / 23283)" by blast
  have ds: "resolve_durations (commands ?d) = Inr [1 / 2, 1 / 2]"
    by (simp add: resolve_durations_def np_diff_def Let_def)
  have "out_values art ! 0 = 1 / 2 \<and> out_values art ! (7629 - 1) = 1 / 10"
  proof (rule linear_ramp_boundaries [OF gen ds, where i = 0])
    show "0 < length (commands ?d)" by simp
    show "commands ?d ! 0 = LinearRamp 0 (1 / 2) (1 / 2) (1 / 10)" by simp
    show "t_init_idx (total_duration art) (Min (set (map cmd_t (commands ?d))))
            (commands ?d ! 0) = Inr 0"
      by (simp add: td t_init_idx_def ts_index_scenario)
    show "t_end_idx (total_duration art) (Min (set (map cmd_t (commands ?d))))
            (commands ?d ! 0) ([1 / 2, 1 / 2] ! 0) = Inr 7629"
      by (simp add: td t_end_idx_def ts_index_scenario)
    show "0 + 2 \<le> (7629::nat)" by simp
    show "\<forall>j. 0 < j \<and> j < length (commands ?d) \<longrightarrow>
            (\<forall>j0 j1.
               t_init_idx (total_duration art) (Min (set (map cmd_t (commands ?d))))
                 (commands ?d ! j) = Inr j0 \<longrightarrow>
               t_end_idx (total_duration art) (Min (set (map cmd_t (commands ?d))))
                 (commands ?d ! j) ([1 / 2, 1 / 2] ! j) = Inr j1 \<longrightarrow>
               \<not> (j0 \<le> 0 \<and> 0 < j1) \<and> \<not> (j0 \<le> 7629 - 1 \<and> 7629 - 1 < j1))"
      by (auto simp: td t_init_idx_def t_end_idx_def ts_index_scenario less_Suc_eq)
  qed
  with gen show ?thesis by simp
qed


section \<open>Command submission\<close>

lemma power_ramp_rejects:
  "time_const < duration \<or> init_volt \<le> final_volt \<Longrightarrow>
   fst (power_ramp self t duration time_const init_volt final_volt ratio) = Some LabscriptError \<and>
   commands (snd (power_ramp self t duration time_const init_volt final_volt ratio)) = commands self"
  by (auto simp: power_ramp_def trigger_def Let_def)

text \<open>
  Claim C4. \<open>power_ramp\<close> is to raise for every \<open>time_const \<le> duration\<close> and for every
  \<open>final_volt \<ge> init_volt\<close>, and then append nothing. The second check and the strict
  part of the first do so (\<open>power_ramp_rejects\<close>), but the first check is
  \<open>time_const < duration\<close>, although its own message reads
  \<open>'power_ramp' requires time_const > duration\<close>: at \<open>time_const = duration\<close> the call
  raises nothing and appends the command.
\<close>

theorem power_ramp_equal_time_const_accepted:
  "power_ramp (init_device (1 / 1000)) 0 1 1 1 (1 / 2) 10 =
     (None, \<lparr>trig_duration = 1 / 1000,
             commands = [PowerRamp 0 1 1 1 (1 / 2) 10],
             parent_triggers = [(0, 1 / 1000)]\<rparr>)"
  by (simp add: power_ramp_def init_device_def trigger_def)

text \<open>
  Claim C10. When \<open>power_ramp\<close> is the first call on an empty timeline and its
  arguments fail a validation check (\<open>time_const < duration\<close> or
  \<open>final_volt \<ge> init_volt\<close>), the call raises \<open>LabscriptError\<close> and appends no command,
  yet the parent device has been triggered at \<open>t\<close>: the trigger comes before the checks.
\<close>

theorem power_ramp_trigger_before_validation:
  assumes "commands self = []"
    and "time_const < duration \<or> final_volt \<ge> init_volt"
  shows "power_ramp self t duration time_const init_volt final_volt ratio =
           (Some LabscriptError,
            self\<lparr>parent_triggers := parent_triggers self @ [(t, trig_duration self)]\<rparr>)
         \<and> commands (snd (power_ramp self t duration time_const init_volt final_volt ratio)) = []
         \<and> parent_triggers (snd (power_ramp self t duration time_const init_volt final_volt ratio))
             = parent_triggers self @ [(t, trig_duration self)]"
  using assms by (auto simp: power_ramp_def trigger_def Let_def)

text \<open>An instance: the first call, with \<open>time_const = 1 < duration = 2\<close>.\<close>

theorem power_ramp_trigger_before_validation_witness:
  "power_ramp (init_device (1 / 1000)) 0 2 1 1 (1 / 2) 10 =
     (Some LabscriptError,
      \<lparr>trig_duration = 1 / 1000, commands = [], parent_triggers = [(0, 1 / 1000)]\<rparr>)"
  using power_ramp_trigger_before_validation
    [where self = "init_device (1 / 1000)" and t = 0 and duration = 2 and time_const = 1
       and init_volt = 1 and final_volt = "1 / 2" and ratio = 10]
  by (simp add: init_device_def)

section \<open>The progress ramp \<open>steps\<close>\<close>




section \<open>The attribute quantizer\<close>

lemma py_round_of_int: "py_round (real_of_int n) = n"
  by (simp add: py_round_def)

lemma nearest_multiple_idem:
  "step \<noteq> 0 \<Longrightarrow> nearest_multiple step (nearest_multiple step x) = nearest_multiple step x"
  by (simp add: nearest_multiple_def py_round_of_int)

text \<open>
  Claim C9. Snapping to the nearest multiple of the step is idempotent, for the step
  \<open>1.22070e-4\<close> of amplitude and offset and for the step \<open>1.16415e-1\<close> of the
  frequency; so a second \<open>update_attributes\<close> for the same attribute leaves the spin box
  at the value the first one set. (Over the reals: the rounding error of floating-point
  multiplication and division is not part of the model.)
\<close>

theorem quantize_idempotent:
  "nearest_multiple (12207 / 100000000) (nearest_multiple (12207 / 100000000) x)
     = nearest_multiple (12207 / 100000000) x
   \<and> nearest_multiple (116415 / 1000000) (nearest_multiple (116415 / 1000000) x)
     = nearest_multiple (116415 / 1000000) x
   \<and> amplitude0_spinbox (snd (update_attributes (snd (update_attributes self ''amplitude'')) ''amplitude''))
     = amplitude0_spinbox (snd (update_attributes self ''amplitude''))
   \<and> offset0_spinbox (snd (update_attributes (snd (update_attributes self ''offset'')) ''offset''))
     = offset0_spinbox (snd (update_attributes self ''offset''))
   \<and> frequency0_spinbox (snd (update_attributes (snd (update_attributes self ''frequency'')) ''frequency''))
     = frequency0_spinbox (snd (update_attributes self ''frequency''))"
  by (simp add: nearest_multiple_idem update_attributes_def queue_work_def Let_def)

section \<open>Transition to manual mode\<close>

lemma secondary_loop_result:
  "secondary_loop reply n ws (s, self) =
     (s \<and> (\<forall>k<length ws. reply (n + k)),
      self\<lparr>queued_work := queued_work self @ map (\<lambda>w. (w, ''transition_to_manual'', [])) ws\<rparr>)"
proof (induction ws arbitrary: n s self)
  case Nil
  then show ?case by simp
next
  case (Cons w ws)
  show ?case
    by (simp add: Cons.IH queue_work_def All_less_Suc2 Let_def)
qed

lemma fold_set_final_value:
  "queued_work (fold set_final_value vs self) = queued_work self \<and>
   notify_queue (fold set_final_value vs self) = notify_queue self \<and>
   mode (fold set_final_value vs self) = mode self \<and>
   device_name (fold set_final_value vs self) = device_name self"
  by (induction vs arbitrary: self) (simp_all add: set_final_value_def Let_def)

text \<open>
  Claim C8. After the primary worker, \<open>transition_to_manual\<close> is queued for every
  secondary worker, in order, whatever the earlier ones answered. The overall result is
  the conjunction of the primary worker's success and all secondary answers. If it is
  success, the notification \<open>'success'\<close> is put on the queue, the mode becomes
  \<open>MODE_MANUAL\<close> and nothing is raised; otherwise the notification \<open>'fail'\<close> is put on
  the queue, the exception asking for a restart of the device is raised, and the mode
  stays \<open>MODE_TRANSITION_TO_MANUAL\<close>.
\<close>

theorem transition_to_manual_aggregates:
  "let result = transition_to_manual self program (primary_success, attrs) reply;
       overall = (primary_success \<and> (\<forall>n<length (secondary_workers self). reply n))
   in queued_work (snd result) =
        queued_work self @ (primary_worker self, ''transition_to_manual'', []) #
          map (\<lambda>w. (w, ''transition_to_manual'', [])) (secondary_workers self)
      \<and> (overall \<longrightarrow>
           fst result = None \<and> mode (snd result) = MODE_MANUAL \<and>
           notify_queue (snd result) = notify_queue self @ [(device_name self, ''success'')])
      \<and> (\<not> overall \<longrightarrow>
           fst result = Some (Exception
             ''Could not transition to manual. You must restart this device to continue'') \<and>
           mode (snd result) = MODE_TRANSITION_TO_MANUAL \<and>
           notify_queue (snd result) = notify_queue self @ [(device_name self, ''fail'')])"
  by (simp add: transition_to_manual_def secondary_loop_result fold_set_final_value
        queue_work_def Let_def)

text \<open>
  An instance: two secondary workers, of which the first fails and the second succeeds.
  The second is still asked to reset, and the transition fails.
\<close>

theorem transition_to_manual_aggregates_witness:
  "fst (transition_to_manual
          \<lparr>device_name = ''rp'', mode = MODE_BUFFERED, waveform0_box = ''sin'',
             amplitude0_spinbox = 1, offset0_spinbox = 0, frequency0_spinbox = 10,
             primary_worker = ''main_worker'', secondary_workers = [''w1'', ''w2''],
             final_values = [], AO = Map.empty, DO = Map.empty, image = Map.empty,
             DDS = Map.empty, queued_work = [], notify_queue = [], base_calls = []\<rparr>
          False
          (True, \<lparr>attr_waveform = ''dc'', attr_frequency = 0, attr_amplitude = 0,
                    attr_offset = - 1\<rparr>)
          (\<lambda>n. n \<noteq> 0))
     = Some (Exception
         ''Could not transition to manual. You must restart this device to continue'')
   \<and> queued_work (snd (transition_to_manual
          \<lparr>device_name = ''rp'', mode = MODE_BUFFERED, waveform0_box = ''sin'',
             amplitude0_spinbox = 1, offset0_spinbox = 0, frequency0_spinbox = 10,
             primary_worker = ''main_worker'', secondary_workers = [''w1'', ''w2''],
             final_values = [], AO = Map.empty, DO = Map.empty, image = Map.empty,
             DDS = Map.empty, queued_work = [], notify_queue = [], base_calls = []\<rparr>
          False
          (True, \<lparr>attr_waveform = ''dc'', attr_frequency = 0, attr_amplitude = 0,
                    attr_offset = - 1\<rparr>)
          (\<lambda>n. n \<noteq> 0)))
     = [(''main_worker'', ''transition_to_manual'', []),
        (''w1'', ''transition_to_manual'', []),
        (''w2'', ''transition_to_manual'', [])]
   \<and> notify_queue (snd (transition_to_manual
          \<lparr>device_name = ''rp'', mode = MODE_BUFFERED, waveform0_box = ''sin'',
             amplitude0_spinbox = 1, offset0_spinbox = 0, frequency0_spinbox = 10,
             primary_worker = ''main_worker'', secondary_workers = [''w1'', ''w2''],
             final_values = [], AO = Map.empty, DO = Map.empty, image = Map.empty,
             DDS = Map.empty, queued_work = [], notify_queue = [], base_calls = []\<rparr>
          False
          (True, \<lparr>attr_waveform = ''dc'', attr_frequency = 0, attr_amplitude = 0,
                    attr_offset = - 1\<rparr>)
          (\<lambda>n. n \<noteq> 0)))
     = [(''rp'', ''fail'')]"
  using transition_to_manual_aggregates
    [of "\<lparr>device_name = ''rp'', mode = MODE_BUFFERED, waveform0_box = ''sin'',
             amplitude0_spinbox = 1, offset0_spinbox = 0, frequency0_spinbox = 10,
             primary_worker = ''main_worker'', secondary_workers = [''w1'', ''w2''],
             final_values = [], AO = Map.empty, DO = Map.empty, image = Map.empty,
             DDS = Map.empty, queued_work = [], notify_queue = [], base_calls = []\<rparr>"
        False True
        "\<lparr>attr_waveform = ''dc'', attr_frequency = 0, attr_amplitude = 0, attr_offset = - 1\<rparr>"
        "\<lambda>n. n \<noteq> 0"]
  by (simp add: Let_def)

end
